theory Spec2Isabelle
  imports Main
begin

section \<open>Python values\<close>

text \<open>
  The values that occur in a Document's \<open>meta\<close> mapping and as keyword arguments of the
  prompt builder: \<open>None\<close>, booleans, integers and strings. \<open>truthy\<close> is Python's truth
  test (what \<open>if v\<close> and \<open>a and b\<close> use) and \<open>py_str\<close> is \<open>str(v)\<close>.
\<close>

datatype pyval = VNone | VBool bool | VInt int | VStr string

fun truthy :: "pyval \<Rightarrow> bool" where
  "truthy VNone = False"
| "truthy (VBool b) = b"
| "truthy (VInt i) = (i \<noteq> 0)"
| "truthy (VStr s) = (s \<noteq> [])"

definition digit :: "nat \<Rightarrow> char" where
  "digit n = ''0123456789'' ! n"

function str_of_nat :: "nat \<Rightarrow> string" where
  "str_of_nat n = (if n < 10 then [digit n] else str_of_nat (n div 10) @ [digit (n mod 10)])"
  by pat_completeness auto
termination
  by (relation "measure id") auto

declare str_of_nat.simps [simp del]

fun py_str :: "pyval \<Rightarrow> string" where
  "py_str VNone = ''None''"
| "py_str (VBool b) = (if b then ''True'' else ''False'')"
| "py_str (VInt i) = (if i < 0 then ''-'' @ str_of_nat (nat (- i)) else str_of_nat (nat i))"
| "py_str (VStr s) = s"

text \<open>\<open>sep.join(xs)\<close>\<close>

fun join :: "string \<Rightarrow> string list \<Rightarrow> string" where
  "join sep [] = []"
| "join sep [x] = x"
| "join sep (x # y # ys) = x @ sep @ join sep (y # ys)"

text \<open>\<open>c or ""\<close> for an optional string \<open>c\<close>\<close>

fun or_empty :: "string option \<Rightarrow> string" where
  "or_empty None = []"
| "or_empty (Some c) = (if c = [] then [] else c)"

section \<open>Documents, the heap and the argument of \<open>run\<close>\<close>

text \<open>
  A Document is an object on the heap: \<open>run\<close> assigns to its \<open>embedding\<close> attribute in
  place, and one Document may be referenced from several positions of a list. The record
  has the three attributes the embedder touches; the extension part of the record scheme
  stands for every other attribute of the class. The type \<open>'e\<close> is the type of one
  embedding vector, which the embedder only passes on.
\<close>

type_synonym ref = nat

record 'e document =
  content :: "string option"
  meta :: "string \<rightharpoonup> pyval"
  embedding :: "'e option"

text \<open>
  What a caller can pass as \<open>documents\<close>, and what a list can hold: a plain value, a
  reference to a Document, or a list.
\<close>

datatype pyobj = Atom pyval | DocRef ref | ListOf "pyobj list"

fun isinstance_list :: "pyobj \<Rightarrow> bool" where
  "isinstance_list (ListOf xs) = True"
| "isinstance_list _ = False"

fun isinstance_Document :: "pyobj \<Rightarrow> bool" where
  "isinstance_Document (DocRef r) = True"
| "isinstance_Document _ = False"

section \<open>The embedder\<close>

datatype secret = Token string | EnvVar "string list" bool

datatype error =
    TypeError string
  | RuntimeError string
  | AttributeError string
  | BackendError string
  | TemplateSyntaxError string
  | TemplateError string

text \<open>
  The embedding backend is an external collaborator: \<open>embed\<close> takes the texts, the batch
  size and the two flags, and returns the vectors or raises (\<open>Inl\<close>, with the message).
  The factory that loads a backend takes model, device and credential.
\<close>

type_synonym 'e backend = "string list \<Rightarrow> int \<Rightarrow> bool \<Rightarrow> bool \<Rightarrow> string + 'e list"

type_synonym 'e factory = "string \<Rightarrow> string \<Rightarrow> secret option \<Rightarrow> string + 'e backend"

record 'e embedder =
  model :: string
  device :: string
  token :: "secret option"
  prefix :: string
  suffix :: string
  batch_size :: int
  progress_bar :: bool
  normalize_embeddings :: bool
  meta_fields_to_embed :: "string list"
  embedding_separator :: string
  embedding_backend :: "'e backend option"

text \<open>
  \<open>__init__\<close>: every argument is stored as given, except that a missing or empty device
  becomes \<open>"cpu"\<close> and a missing field list becomes the empty list. The attribute
  \<open>embedding_backend\<close> does not exist yet.
\<close>

definition init ::
  "string \<Rightarrow> string option \<Rightarrow> secret option \<Rightarrow> string \<Rightarrow> string \<Rightarrow> int \<Rightarrow> bool \<Rightarrow> bool \<Rightarrow>
   string list option \<Rightarrow> string \<Rightarrow> 'e embedder" where
  "init model' device' token' prefix' suffix' batch_size' progress_bar' normalize_embeddings'
        meta_fields_to_embed' embedding_separator' =
     \<lparr> model = model',
       device = (case device' of None \<Rightarrow> ''cpu'' | Some d \<Rightarrow> if d = [] then ''cpu'' else d),
       token = token',
       prefix = prefix',
       suffix = suffix',
       batch_size = batch_size',
       progress_bar = progress_bar',
       normalize_embeddings = normalize_embeddings',
       meta_fields_to_embed =
         (case meta_fields_to_embed' of None \<Rightarrow> [] | Some fs \<Rightarrow> if fs = [] then [] else fs),
       embedding_separator = embedding_separator',
       embedding_backend = None \<rparr>"

text \<open>
  The state the two methods work on: the component itself, the heap of Documents, and the
  calls made so far to the two collaborators (the arguments of each call, in order).
\<close>

type_synonym embed_call = "string list \<times> int \<times> bool \<times> bool"

type_synonym factory_call = "string \<times> string \<times> secret option"

record ('e, 'z) state =
  self :: "'e embedder"
  heap :: "ref \<Rightarrow> ('e, 'z) document_scheme"
  embed_calls :: "embed_call list"
  factory_calls :: "factory_call list"

subsection \<open>\<open>warm_up\<close>\<close>

definition warm_up :: "'e factory \<Rightarrow> ('e, 'z) state \<Rightarrow> (error + unit) \<times> ('e, 'z) state" where
  "warm_up get_embedding_backend s =
     (if embedding_backend (self s) = None then
        (let s1 = s\<lparr>factory_calls :=
                      factory_calls s @ [(model (self s), device (self s), token (self s))]\<rparr>
         in case get_embedding_backend (model (self s)) (device (self s)) (token (self s)) of
              Inl msg \<Rightarrow> (Inl (BackendError msg), s1)
            | Inr b \<Rightarrow> (Inr (), s1\<lparr>self := (self s)\<lparr>embedding_backend := Some b\<rparr>\<rparr>))
      else (Inr (), s))"

subsection \<open>\<open>run\<close>\<close>

definition type_error_message :: string where
  "type_error_message =
     ''SentenceTransformersDocumentEmbedder expects a list of Documents as input.'' @
     ''In case you want to embed a list of strings, please use the SentenceTransformersTextEmbedder.''"

definition not_loaded_message :: string where
  "not_loaded_message =
     ''The embedding model has not been loaded. Please call warm_up() before running.''"

text \<open>
  The list comprehension
  \<open>[str(doc.meta[key]) for key in self.meta_fields_to_embed if key in doc.meta and doc.meta[key]]\<close>:
  the condition is false for a key that is not in \<open>meta\<close>, and otherwise the truth value
  of the value stored there; \<open>doc.meta[key]\<close> is read only under that condition.
\<close>

definition meta_values_to_embed :: "string list \<Rightarrow> (string \<rightharpoonup> pyval) \<Rightarrow> string list" where
  "meta_values_to_embed keys m =
     [py_str (the (m key)). key \<leftarrow> keys, (case m key of None \<Rightarrow> False | Some v \<Rightarrow> truthy v)]"

definition text_to_embed :: "'e embedder \<Rightarrow> ('e, 'z) document_scheme \<Rightarrow> string" where
  "text_to_embed emb doc =
     prefix emb
     @ join (embedding_separator emb)
         (meta_values_to_embed (meta_fields_to_embed emb) (meta doc) @ [or_empty (content doc)])
     @ suffix emb"

text \<open>
  One round of the first loop. An element that is not a Document has neither \<open>meta\<close> nor
  \<open>content\<close>: the comprehension reads \<open>doc.meta\<close> when there is a field to look at, and
  otherwise \<open>doc.content\<close> is the first attribute read; either raises AttributeError.
\<close>

fun text_of_element ::
  "'e embedder \<Rightarrow> (ref \<Rightarrow> ('e, 'z) document_scheme) \<Rightarrow> pyobj \<Rightarrow> error + string" where
  "text_of_element emb h (DocRef r) = Inr (text_to_embed emb (h r))"
| "text_of_element emb h _ =
     Inl (AttributeError (if meta_fields_to_embed emb = [] then ''content'' else ''meta''))"

fun texts_to_embed ::
  "'e embedder \<Rightarrow> (ref \<Rightarrow> ('e, 'z) document_scheme) \<Rightarrow> pyobj list \<Rightarrow> error + string list" where
  "texts_to_embed emb h [] = Inr []"
| "texts_to_embed emb h (d # ds) =
     (case text_of_element emb h d of
        Inl e \<Rightarrow> Inl e
      | Inr t \<Rightarrow> (case texts_to_embed emb h ds of Inl e \<Rightarrow> Inl e | Inr ts \<Rightarrow> Inr (t # ts)))"

text \<open>
  The second loop, over \<open>zip(documents, embeddings)\<close>: \<open>doc.embedding = emb\<close>. Assigning
  the attribute on an element that is not a Document raises AttributeError.
\<close>

fun assign_embeddings ::
  "(pyobj \<times> 'e) list \<Rightarrow> (ref \<Rightarrow> ('e, 'z) document_scheme) \<Rightarrow>
   error option \<times> (ref \<Rightarrow> ('e, 'z) document_scheme)" where
  "assign_embeddings [] h = (None, h)"
| "assign_embeddings ((DocRef r, v) # rest) h =
     assign_embeddings rest (h(r := (h r)\<lparr>embedding := Some v\<rparr>))"
| "assign_embeddings ((_, v) # rest) h = (Some (AttributeError ''embedding''), h)"

text \<open>
  \<open>run\<close> returns the dictionary \<open>{"documents": documents}\<close> or raises. The validation is
  the source's condition
  \<open>not isinstance(documents, list) or documents and not isinstance(documents[0], Document)\<close>.
\<close>

definition run ::
  "('e, 'z) state \<Rightarrow> pyobj \<Rightarrow> (error + (string \<times> pyobj) list) \<times> ('e, 'z) state" where
  "run s documents =
     (if \<not> isinstance_list documents
         \<or> (case documents of ListOf (d # ds) \<Rightarrow> \<not> isinstance_Document d | _ \<Rightarrow> False)
      then (Inl (TypeError type_error_message), s)
      else case embedding_backend (self s) of
        None \<Rightarrow> (Inl (RuntimeError not_loaded_message), s)
      | Some backend \<Rightarrow>
         (case documents of
            ListOf ds \<Rightarrow>
              (case texts_to_embed (self s) (heap s) ds of
                 Inl e \<Rightarrow> (Inl e, s)
               | Inr texts \<Rightarrow>
                  (let s1 = s\<lparr>embed_calls := embed_calls s @
                               [(texts, batch_size (self s), progress_bar (self s),
                                 normalize_embeddings (self s))]\<rparr>
                   in case backend texts (batch_size (self s)) (progress_bar (self s))
                             (normalize_embeddings (self s)) of
                        Inl msg \<Rightarrow> (Inl (BackendError msg), s1)
                      | Inr embeddings \<Rightarrow>
                         (case assign_embeddings (zip ds embeddings) (heap s1) of
                            (Some e, h') \<Rightarrow> (Inl e, s1\<lparr>heap := h'\<rparr>)
                          | (None, h') \<Rightarrow> (Inr [(''documents'', documents)], s1\<lparr>heap := h'\<rparr>))))
          | _ \<Rightarrow> (Inl (TypeError type_error_message), s)))"


section \<open>The prompt builder\<close>

text \<open>
  Jinja2 is an external library. The builder uses four of its operations: compiling a
  string into a template (\<open>Template(template)\<close>), parsing a string into a syntax tree
  (\<open>environment.parse\<close>), listing the undeclared variables of a tree
  (\<open>meta.find_undeclared_variables\<close>, a set, given here in the order the loop visits it)
  and rendering a template against keyword arguments. The first two raise
  TemplateSyntaxError on a malformed string and rendering may raise as well (\<open>Inl\<close>, with
  the message). The types \<open>'t\<close> and \<open>'a\<close> are the engine's templates and syntax trees.
\<close>

record ('t, 'a) jinja =
  Template :: "string \<Rightarrow> string + 't"
  parse :: "string \<Rightarrow> string + 'a"
  find_undeclared_variables :: "'a \<Rightarrow> string list"
  render :: "'t \<Rightarrow> (string \<rightharpoonup> pyval) \<Rightarrow> string + string"

datatype socket_type = Any

record input_socket =
  socket_type :: socket_type
  fourth_argument :: pyval

record 't prompt_builder =
  template_string :: string
  template :: 't
  inputs :: "(string \<times> input_socket) list"

text \<open>\<open>d[k] = v\<close> on a dictionary kept in insertion order\<close>

fun dict_set :: "('k \<times> 'v) list \<Rightarrow> 'k \<Rightarrow> 'v \<Rightarrow> ('k \<times> 'v) list" where
  "dict_set [] k v = [(k, v)]"
| "dict_set ((k', v') # kvs) k v =
     (if k' = k then (k', v) # kvs else (k', v') # dict_set kvs k v)"

text \<open>
  Modelled from the spec: \<open>component.set_input_type\<close>, which belongs to the component
  registration machinery and is not among the source files. It registers on the instance
  an input slot named after the variable; the slot keeps the type and the fourth argument
  of the call as they are passed.
\<close>

definition set_input_type ::
  "'t prompt_builder \<Rightarrow> string \<Rightarrow> socket_type \<Rightarrow> pyval \<Rightarrow> 't prompt_builder" where
  "set_input_type instance name ty dflt =
     instance\<lparr>inputs := dict_set (inputs instance) name \<lparr>socket_type = ty, fourth_argument = dflt\<rparr>\<rparr>"

definition PromptBuilder_init :: "('t, 'a) jinja \<Rightarrow> string \<Rightarrow> error + 't prompt_builder" where
  "PromptBuilder_init jinja2 template' =
     (case Template jinja2 template' of
        Inl msg \<Rightarrow> Inl (TemplateSyntaxError msg)
      | Inr t \<Rightarrow>
         (case parse jinja2 template' of
            Inl msg \<Rightarrow> Inl (TemplateSyntaxError msg)
          | Inr ast \<Rightarrow>
              Inr (foldl (\<lambda>pb var. set_input_type pb var Any (VStr []))
                     \<lparr>template_string = template', template = t, inputs = []\<rparr>
                     (find_undeclared_variables jinja2 ast))))"

definition PromptBuilder_run ::
  "('t, 'a) jinja \<Rightarrow> 't prompt_builder \<Rightarrow> (string \<rightharpoonup> pyval) \<Rightarrow> error + (string \<times> string) list" where
  "PromptBuilder_run jinja2 pb kwargs =
     (case render jinja2 (template pb) kwargs of
        Inl msg \<Rightarrow> Inl (TemplateError msg)
      | Inr out \<Rightarrow> Inr [(''prompt'', out)])"

text \<open>
  Modelled from the spec: \<open>default_to_dict\<close> and the deserialization that goes with it,
  which belong to the generic serialization machinery and are not among the source files.
  The configuration record holds exactly the constructor parameters, and reconstruction
  calls the constructor with them, so the template is parsed again and the inputs are
  derived again. A record with other keys, or with a template that is not a string, is
  not a call the constructor accepts.
\<close>

type_synonym config = "(string \<times> pyval) list"

definition default_to_dict :: "config \<Rightarrow> config" where
  "default_to_dict init_parameters = init_parameters"

definition PromptBuilder_to_dict :: "'t prompt_builder \<Rightarrow> config" where
  "PromptBuilder_to_dict pb = default_to_dict [(''template'', VStr (template_string pb))]"

definition PromptBuilder_from_dict ::
  "('t, 'a) jinja \<Rightarrow> config \<Rightarrow> error + 't prompt_builder" where
  "PromptBuilder_from_dict jinja2 data =
     (case data of
        [(k, VStr t)] \<Rightarrow>
          if k = ''template'' then PromptBuilder_init jinja2 t
          else Inl (TypeError ''unexpected keyword argument'')
      | _ \<Rightarrow> Inl (TypeError ''wrong arguments for PromptBuilder''))"

section \<open>Sample collaborators\<close>

text \<open>
  Concrete collaborators on which the theorems below are instantiated. The theorems
  themselves hold for every backend, factory and template engine.
\<close>

text \<open>A backend whose vector for a text is the one-element list of the text's length.\<close>

definition length_backend :: "nat list backend" where
  "length_backend texts bs pb ne = Inr (map (\<lambda>t. [length t]) texts)"

definition sample_factory :: "nat list factory" where
  "sample_factory m d t = Inr length_backend"

definition sample_embedder :: "nat list embedder" where
  "sample_embedder =
     init ''sentence-transformers/all-mpnet-base-v2'' None (Some (EnvVar [''HF_API_TOKEN''] False))
       ''Q: '' '' /Q'' 32 True False (Some [''title'', ''year'', ''note'', ''lang'']) [CHR 0x0A]"

definition sample_heap :: "ref \<Rightarrow> nat list document" where
  "sample_heap r =
     (if r = 0 then
        \<lparr>content = Some ''hello'',
         meta = [''title'' \<mapsto> VStr ''Greeting'', ''year'' \<mapsto> VInt 0, ''note'' \<mapsto> VStr []],
         embedding = None\<rparr>
      else \<lparr>content = None, meta = Map.empty, embedding = None\<rparr>)"

definition sample_state :: "(nat list, unit) state" where
  "sample_state =
     \<lparr>self = sample_embedder, heap = sample_heap, embed_calls = [], factory_calls = []\<rparr>"

definition warmed_state :: "(nat list, unit) state" where
  "warmed_state = snd (warm_up sample_factory sample_state)"

text \<open>
  A template engine for literal text and \<open>{{ name }}\<close> placeholders: a template is its
  list of nodes, a placeholder that is not closed is a syntax error, and a variable
  without a value renders as the empty string.
\<close>

datatype node = Text string | Var string

definition strip :: "string \<Rightarrow> string" where
  "strip s = rev (dropWhile (\<lambda>c. c = CHR '' '') (rev (dropWhile (\<lambda>c. c = CHR '' '') s)))"

fun scan_text :: "string \<Rightarrow> string \<Rightarrow> node list option"
  and scan_var :: "string \<Rightarrow> string \<Rightarrow> node list option" where
  "scan_text acc [] = Some [Text (rev acc)]"
| "scan_text acc [c] = Some [Text (rev (c # acc))]"
| "scan_text acc (c # d # cs) =
     (if c = CHR ''{'' \<and> d = CHR ''{''
      then map_option ((#) (Text (rev acc))) (scan_var [] cs)
      else scan_text (c # acc) (d # cs))"
| "scan_var acc [] = None"
| "scan_var acc [c] = None"
| "scan_var acc (c # d # cs) =
     (if c = CHR ''}'' \<and> d = CHR ''}''
      then map_option ((#) (Var (strip (rev acc)))) (scan_text [] cs)
      else scan_var (c # acc) (d # cs))"

definition sample_parse :: "string \<Rightarrow> string + node list" where
  "sample_parse s =
     (case scan_text [] s of None \<Rightarrow> Inl ''unexpected end of template'' | Some ns \<Rightarrow> Inr ns)"

fun render_node :: "(string \<rightharpoonup> pyval) \<Rightarrow> node \<Rightarrow> string" where
  "render_node kwargs (Text t) = t"
| "render_node kwargs (Var x) = (case kwargs x of None \<Rightarrow> [] | Some v \<Rightarrow> py_str v)"

definition sample_jinja :: "(node list, node list) jinja" where
  "sample_jinja =
     \<lparr>Template = sample_parse,
      parse = sample_parse,
      find_undeclared_variables = (\<lambda>ns. remdups [x. Var x \<leftarrow> ns]),
      render = (\<lambda>ns kwargs. Inr (concat (map (render_node kwargs) ns)))\<rparr>"

section \<open>Properties of the embedder\<close>

lemma texts_to_embed_docs:
  "texts_to_embed emb h (map DocRef rs) = Inr (map (\<lambda>r. text_to_embed emb (h r)) rs)"
  by (induction rs) simp_all

lemma assign_embeddings_docs_ok:
  "fst (assign_embeddings (zip (map DocRef rs) vs) h) = None"
proof (induction rs arbitrary: vs h)
  case Nil
  then show ?case by simp
next
  case (Cons r rs)
  then show ?case by (cases vs) simp_all
qed

lemma assign_embeddings_frame:
  "(snd (assign_embeddings ps h) r)\<lparr>embedding := x\<rparr> = (h r)\<lparr>embedding := x\<rparr>"
proof (induction ps h rule: assign_embeddings.induct)
  case (2 a v rest h)
  have "(snd (assign_embeddings rest (h(a := (h a)\<lparr>embedding := Some v\<rparr>))) r)\<lparr>embedding := x\<rparr>
      = ((h(a := (h a)\<lparr>embedding := Some v\<rparr>)) r)\<lparr>embedding := x\<rparr>"
    by (rule "2.IH")
  also have "\<dots> = (h r)\<lparr>embedding := x\<rparr>" by simp
  finally show ?case by simp
qed simp_all

lemma assign_embeddings_untouched:
  "DocRef r \<notin> fst ` set ps \<Longrightarrow> snd (assign_embeddings ps h) r = h r"
  by (induction ps h rule: assign_embeddings.induct) auto

lemma assign_embeddings_skip:
  "(\<And>j. j < length rs \<Longrightarrow> j < length vs \<Longrightarrow> rs ! j \<noteq> r) \<Longrightarrow>
   snd (assign_embeddings (zip (map DocRef rs) vs) h) r = h r"
proof (induction rs arbitrary: vs h)
  case Nil
  then show ?case by simp
next
  case (Cons a rs)
  show ?case
  proof (cases vs)
    case Nil
    then show ?thesis by simp
  next
    case (Cons v vs')
    have a: "a \<noteq> r" using Cons.prems [of 0] Cons by simp
    have "\<And>j. j < length rs \<Longrightarrow> j < length vs' \<Longrightarrow> rs ! j \<noteq> r"
      using Cons.prems [of "Suc j" for j] Cons by simp
    then have "snd (assign_embeddings (zip (map DocRef rs) vs') (h(a := (h a)\<lparr>embedding := Some v\<rparr>))) r
        = (h(a := (h a)\<lparr>embedding := Some v\<rparr>)) r"
      by (rule Cons.IH)
    then show ?thesis using a Cons by simp
  qed
qed

lemma assign_embeddings_last_wins:
  "i < length rs \<Longrightarrow> i < length vs \<Longrightarrow>
   (\<And>j. i < j \<Longrightarrow> j < length rs \<Longrightarrow> j < length vs \<Longrightarrow> rs ! j \<noteq> rs ! i) \<Longrightarrow>
   embedding (snd (assign_embeddings (zip (map DocRef rs) vs) h) (rs ! i)) = Some (vs ! i)"
proof (induction rs arbitrary: vs h i)
  case Nil
  then show ?case by simp
next
  case (Cons a rs)
  obtain v vs' where vs: "vs = v # vs'" using Cons.prems(2) by (cases vs) auto
  let ?h = "h(a := (h a)\<lparr>embedding := Some v\<rparr>)"
  show ?case
  proof (cases i)
    case 0
    have "\<And>j. j < length rs \<Longrightarrow> j < length vs' \<Longrightarrow> rs ! j \<noteq> a"
      using Cons.prems(3) [of "Suc j" for j] 0 vs by simp
    then have "snd (assign_embeddings (zip (map DocRef rs) vs') ?h) a = ?h a"
      by (rule assign_embeddings_skip)
    then show ?thesis using 0 vs by simp
  next
    case (Suc k)
    have "embedding (snd (assign_embeddings (zip (map DocRef rs) vs') ?h) (rs ! k)) = Some (vs' ! k)"
    proof (rule Cons.IH)
      show "k < length rs" using Cons.prems(1) Suc by simp
      show "k < length vs'" using Cons.prems(2) Suc vs by simp
      show "\<And>j. k < j \<Longrightarrow> j < length rs \<Longrightarrow> j < length vs' \<Longrightarrow> rs ! j \<noteq> rs ! k"
        using Cons.prems(3) [of "Suc j" for j] Suc vs by simp
    qed
    then show ?thesis using Suc vs by simp
  qed
qed


lemma run_docs:
  assumes "embedding_backend (self s) = Some backend"
  shows "run s (ListOf (map DocRef rs)) =
    (let texts = map (\<lambda>r. text_to_embed (self s) (heap s r)) rs;
         s1 = s\<lparr>embed_calls := embed_calls s @
                [(texts, batch_size (self s), progress_bar (self s), normalize_embeddings (self s))]\<rparr>
     in case backend texts (batch_size (self s)) (progress_bar (self s))
               (normalize_embeddings (self s)) of
          Inl msg \<Rightarrow> (Inl (BackendError msg), s1)
        | Inr vs \<Rightarrow> (Inr [(''documents'', ListOf (map DocRef rs))],
                     s1\<lparr>heap := snd (assign_embeddings (zip (map DocRef rs) vs) (heap s))\<rparr>))"
proof -
  have valid: "\<not> (case ListOf (map DocRef rs) of ListOf (d # ds) \<Rightarrow> \<not> isinstance_Document d | _ \<Rightarrow> False)"
    by (cases rs) simp_all
  show ?thesis
    unfolding run_def using valid assms
    by (simp add: texts_to_embed_docs assign_embeddings_docs_ok case_prod_beta Let_def split: sum.splits)
qed


lemma run_invalid:
  assumes "\<not> isinstance_list documents \<or> (\<exists>d ds. documents = ListOf (d # ds) \<and> \<not> isinstance_Document d)"
  shows "run s documents = (Inl (TypeError type_error_message), s)"
  using assms unfolding run_def by (auto split: pyobj.splits list.splits)

lemma texts_to_embed_error:
  "texts_to_embed emb h ds = Inl e \<Longrightarrow> \<exists>a. e = AttributeError a"
proof (induction ds)
  case Nil
  then show ?case by simp
next
  case (Cons d ds)
  then show ?case by (cases d) (auto split: sum.splits)
qed

lemma assign_embeddings_error:
  "fst (assign_embeddings ps h) = Some e \<Longrightarrow> e = AttributeError ''embedding''"
  by (induction ps h rule: assign_embeddings.induct) simp_all

lemma run_valid_not_type_error:
  assumes "isinstance_list documents"
    and "\<not> (\<exists>d ds. documents = ListOf (d # ds) \<and> \<not> isinstance_Document d)"
  shows "\<forall>msg. fst (run s documents) \<noteq> Inl (TypeError msg)"
proof -
  obtain ds where ds: "documents = ListOf ds" using assms(1) by (cases documents) simp_all
  have valid: "\<not> (case ds of d # ds' \<Rightarrow> \<not> isinstance_Document d | _ \<Rightarrow> False)"
    using assms(2) ds by (cases ds) simp_all
  show ?thesis
  proof (cases "embedding_backend (self s)")
    case None
    then show ?thesis unfolding run_def using ds valid by simp
  next
    case (Some backend)
    show ?thesis
    proof (cases "texts_to_embed (self s) (heap s) ds")
      case (Inl e)
      then obtain a where "e = AttributeError a" using texts_to_embed_error by blast
      then show ?thesis unfolding run_def using ds valid Some Inl by simp
    next
      case (Inr texts)
      show ?thesis
      proof (cases "backend texts (batch_size (self s)) (progress_bar (self s)) (normalize_embeddings (self s))")
        case (Inl msg)
        then show ?thesis unfolding run_def using ds valid Some Inr by (simp add: Let_def)
      next
        case vs: (Inr vs)
        obtain r h' where r: "assign_embeddings (zip ds vs) (heap s) = (r, h')"
          by (cases "assign_embeddings (zip ds vs) (heap s)")
        show ?thesis
        proof (cases r)
          case None
          then show ?thesis unfolding run_def using ds valid Some Inr vs r by (simp add: Let_def)
        next
          case (Some e)
          then have "e = AttributeError ''embedding''"
            using assign_embeddings_error [of "zip ds vs" "heap s" e] r by simp
          then show ?thesis unfolding run_def using ds valid \<open>embedding_backend (self s) = Some backend\<close> Inr vs r Some
            by (simp add: Let_def)
        qed
      qed
    qed
  qed
qed


lemma run_state_shape:
  "\<exists>calls ps. snd (run s documents) = s\<lparr>embed_calls := calls, heap := snd (assign_embeddings ps (heap s))\<rparr>
      \<and> fst ` set ps \<subseteq> (case documents of ListOf ds \<Rightarrow> set ds | _ \<Rightarrow> {})"
proof -
  have shape: ?thesis
    if "snd (run s documents) = s\<lparr>embed_calls := calls, heap := snd (assign_embeddings ps (heap s))\<rparr>"
      and "fst ` set ps \<subseteq> (case documents of ListOf ds \<Rightarrow> set ds | _ \<Rightarrow> {})"
    for calls ps
    by (rule exI [of _ calls], rule exI [of _ ps], rule conjI [OF that])
  have keep: ?thesis if "snd (run s documents) = s"
    by (rule shape [where calls = "embed_calls s" and ps = "[]"]) (simp_all add: that)
  show ?thesis
  proof (cases "\<not> isinstance_list documents
         \<or> (case documents of ListOf (d # ds) \<Rightarrow> \<not> isinstance_Document d | _ \<Rightarrow> False)")
    case True
    then have "snd (run s documents) = s" unfolding run_def by simp
    then show ?thesis by (rule keep)
  next
    case valid: False
    then obtain ds where ds: "documents = ListOf ds" by (cases documents) simp_all
    show ?thesis
    proof (cases "embedding_backend (self s)")
      case None
      then have "snd (run s documents) = s" unfolding run_def using valid by simp
      then show ?thesis by (rule keep)
    next
      case (Some backend)
      show ?thesis
      proof (cases "texts_to_embed (self s) (heap s) ds")
        case (Inl e)
        then have "snd (run s documents) = s" unfolding run_def using valid Some ds by simp
        then show ?thesis by (rule keep)
      next
        case (Inr texts)
        let ?c = "embed_calls s @ [(texts, batch_size (self s), progress_bar (self s), normalize_embeddings (self s))]"
        show ?thesis
        proof (cases "backend texts (batch_size (self s)) (progress_bar (self s)) (normalize_embeddings (self s))")
          case (Inl msg)
          have "snd (run s documents) = s\<lparr>embed_calls := ?c, heap := snd (assign_embeddings [] (heap s))\<rparr>"
            unfolding run_def using valid Some ds Inr Inl by (simp add: Let_def)
          then show ?thesis by (rule shape) simp
        next
          case vs: (Inr vs)
          have sub: "fst ` set (zip ds vs) \<subseteq> set ds"
            by (auto dest: set_zip_leftD)
          have "snd (run s documents) = s\<lparr>embed_calls := ?c, heap := snd (assign_embeddings (zip ds vs) (heap s))\<rparr>"
            unfolding run_def using valid Some ds Inr vs
            by (simp add: Let_def case_prod_beta split: option.splits)
          then show ?thesis by (rule shape) (simp add: ds sub)
        qed
      qed
    qed
  qed
qed


lemma warmed_state_eq:
  "warmed_state = sample_state\<lparr>self := sample_embedder\<lparr>embedding_backend := Some length_backend\<rparr>,
      factory_calls := [(''sentence-transformers/all-mpnet-base-v2'', ''cpu'', Some (EnvVar [''HF_API_TOKEN''] False))]\<rparr>"
  by (simp add: warmed_state_def warm_up_def sample_state_def sample_embedder_def init_def
      sample_factory_def)

lemma sample_texts:
  "text_to_embed (self warmed_state) (heap warmed_state 0) = ''Q: Greeting'' @ [CHR 0x0A] @ ''hello /Q''"
  "text_to_embed (self warmed_state) (heap warmed_state (Suc 0)) = ''Q:  /Q''"
  by (simp_all add: warmed_state_eq sample_state_def sample_embedder_def init_def sample_heap_def
      text_to_embed_def meta_values_to_embed_def)

text \<open>
  C1 (as amended): \<open>run\<close> raises the TypeError that names the expected shape exactly when
  \<open>documents\<close> is not a list, or is a non-empty list whose first element is not a Document.
  In that case nothing else happens: the state is unchanged, so the backend has not been
  called and no embedding has been assigned. A list whose first element is a Document
  passes the check whatever its later elements are, and no path of \<open>run\<close> raises a
  TypeError for it.
\<close>

theorem run_type_error_iff_head_check_fails:
  "(\<not> isinstance_list documents \<or> (\<exists>d ds. documents = ListOf (d # ds) \<and> \<not> isinstance_Document d)
      \<longrightarrow> run s documents = (Inl (TypeError type_error_message), s))
   \<and> (isinstance_list documents \<and> \<not> (\<exists>d ds. documents = ListOf (d # ds) \<and> \<not> isinstance_Document d)
      \<longrightarrow> (\<forall>msg. fst (run s documents) \<noteq> Inl (TypeError msg)))"
  using run_invalid [of documents s] run_valid_not_type_error [of documents s] by blast

theorem run_type_error_iff_head_check_fails_witness:
  "run sample_state (ListOf [Atom (VStr ''plain''), DocRef 0]) = (Inl (TypeError type_error_message), sample_state)
   \<and> run sample_state (Atom (VStr ''plain'')) = (Inl (TypeError type_error_message), sample_state)
   \<and> fst (run sample_state (ListOf [DocRef 0, Atom (VStr ''plain'')])) \<noteq> Inl (TypeError type_error_message)"
  using run_type_error_iff_head_check_fails [of "ListOf [Atom (VStr ''plain''), DocRef 0]" sample_state]
    run_type_error_iff_head_check_fails [of "Atom (VStr ''plain'')" sample_state]
    run_type_error_iff_head_check_fails [of "ListOf [DocRef 0, Atom (VStr ''plain'')]" sample_state]
  by simp

text \<open>
  C1 (counterexample to the claim as stated): a list that holds a Document followed by a
  plain string is not a list of Documents, yet \<open>run\<close> does not raise the TypeError. Before
  \<open>warm_up\<close> it raises the RuntimeError of the missing backend, and after \<open>warm_up\<close> the
  first loop fails on the string with an AttributeError.
\<close>

theorem run_later_non_document_no_type_error:
  "fst (run sample_state (ListOf [DocRef 0, Atom (VStr ''plain'')])) = Inl (RuntimeError not_loaded_message)
   \<and> fst (run warmed_state (ListOf [DocRef 0, Atom (VStr ''plain'')])) = Inl (AttributeError ''meta'')
   \<and> fst (run sample_state (ListOf [DocRef 0, Atom (VStr ''plain'')])) \<noteq> Inl (TypeError type_error_message)
   \<and> fst (run warmed_state (ListOf [DocRef 0, Atom (VStr ''plain'')])) \<noteq> Inl (TypeError type_error_message)"
  by (simp add: run_def warmed_state_eq sample_state_def sample_embedder_def init_def)


text \<open>
  C2: once the backend is loaded, \<open>run\<close> on a list of Documents makes one call of the
  backend, and the text it hands over for each Document is the prefix, then the
  separator-joined list of the selected meta values followed by the content (the empty
  string when the content is unset), then the suffix; batch size and the two flags are
  passed on unchanged. With prefix \<open>"Q: "\<close>, suffix \<open>" /Q"\<close>, no meta fields and content
  \<open>"hello"\<close> the text is \<open>"Q: hello /Q"\<close>.
\<close>

theorem run_hands_backend_prefix_joined_suffix:
  "(embedding_backend (self s) \<noteq> None \<longrightarrow>
      embed_calls (snd (run s (ListOf (map DocRef rs)))) =
        embed_calls s @
        [(map (\<lambda>r. prefix (self s)
                  @ join (embedding_separator (self s))
                      (meta_values_to_embed (meta_fields_to_embed (self s)) (meta (heap s r))
                       @ [case content (heap s r) of None \<Rightarrow> [] | Some c \<Rightarrow> c])
                  @ suffix (self s)) rs,
          batch_size (self s), progress_bar (self s), normalize_embeddings (self s))])
   \<and> text_to_embed (emb\<lparr>prefix := ''Q: '', suffix := '' /Q'', meta_fields_to_embed := []\<rparr>)
        (doc\<lparr>content := Some ''hello''\<rparr>) = ''Q: hello /Q''"
proof -
  have or_empty: "or_empty c = (case c of None \<Rightarrow> [] | Some c \<Rightarrow> c)" for c
    by (cases c) simp_all
  have "embed_calls (snd (run s (ListOf (map DocRef rs)))) =
        embed_calls s @
        [(map (\<lambda>r. text_to_embed (self s) (heap s r)) rs,
          batch_size (self s), progress_bar (self s), normalize_embeddings (self s))]"
    if "embedding_backend (self s) = Some backend" for backend
    using run_docs [OF that, of rs] by (simp add: Let_def split: sum.splits)
  moreover have "text_to_embed (emb\<lparr>prefix := ''Q: '', suffix := '' /Q'', meta_fields_to_embed := []\<rparr>)
        (doc\<lparr>content := Some ''hello''\<rparr>) = ''Q: hello /Q''"
    by (simp add: text_to_embed_def meta_values_to_embed_def)
  ultimately show ?thesis
    by (auto simp: text_to_embed_def or_empty)
qed

theorem run_hands_backend_prefix_joined_suffix_witness:
  "embedding_backend (self warmed_state) \<noteq> None
   \<and> embed_calls (snd (run warmed_state (ListOf [DocRef 0, DocRef 1]))) =
       [([''Q: Greeting'' @ [CHR 0x0A] @ ''hello /Q'', ''Q:  /Q''], 32, True, False)]"
proof -
  let ?text = "\<lambda>r. prefix (self warmed_state)
                  @ join (embedding_separator (self warmed_state))
                      (meta_values_to_embed (meta_fields_to_embed (self warmed_state))
                         (meta (heap warmed_state r))
                       @ [case content (heap warmed_state r) of None \<Rightarrow> [] | Some c \<Rightarrow> c])
                  @ suffix (self warmed_state)"
  have b: "embedding_backend (self warmed_state) \<noteq> None"
    by (simp add: warmed_state_eq)
  have "embed_calls (snd (run warmed_state (ListOf (map DocRef [0, 1])))) =
      embed_calls warmed_state @
      [(map ?text [0, 1], batch_size (self warmed_state), progress_bar (self warmed_state),
        normalize_embeddings (self warmed_state))]"
    using b run_hands_backend_prefix_joined_suffix [of warmed_state "[0, 1]"] by blast
  also have "\<dots> = [([''Q: Greeting'' @ [CHR 0x0A] @ ''hello /Q'', ''Q:  /Q''], 32, True, False)]"
    by (simp add: warmed_state_eq sample_state_def sample_embedder_def init_def sample_heap_def
        meta_values_to_embed_def)
  finally show ?thesis using b by simp
qed




text \<open>
  C4: when the backend is loaded and returns the vectors \<open>vs\<close> for the constructed texts,
  \<open>run\<close> returns under the key \<open>documents\<close> the very list it was given (same length, same
  order, nothing dropped or merged), and the loop over \<open>zip(documents, embeddings)\<close>
  assigns the \<open>i\<close>-th vector to the \<open>i\<close>-th Document: afterwards that Document's
  \<open>embedding\<close> is \<open>vs ! i\<close>, for every position that has a vector, unless the same Document
  object occurs again at a later position, whose assignment then comes last.
\<close>

theorem run_returns_same_list_and_assigns_in_order:
  assumes "embedding_backend (self s) = Some backend"
    and "backend (map (\<lambda>r. text_to_embed (self s) (heap s r)) rs) (batch_size (self s))
           (progress_bar (self s)) (normalize_embeddings (self s)) = Inr vs"
  shows "fst (run s (ListOf (map DocRef rs))) = Inr [(''documents'', ListOf (map DocRef rs))]
    \<and> (\<forall>i. i < length rs \<and> i < length vs
            \<and> (\<forall>j. i < j \<and> j < length rs \<and> j < length vs \<longrightarrow> rs ! j \<noteq> rs ! i)
          \<longrightarrow> embedding (heap (snd (run s (ListOf (map DocRef rs)))) (rs ! i)) = Some (vs ! i))"
proof -
  have r: "run s (ListOf (map DocRef rs)) =
      (Inr [(''documents'', ListOf (map DocRef rs))],
       s\<lparr>embed_calls := embed_calls s @
            [(map (\<lambda>r. text_to_embed (self s) (heap s r)) rs, batch_size (self s),
              progress_bar (self s), normalize_embeddings (self s))],
         heap := snd (assign_embeddings (zip (map DocRef rs) vs) (heap s))\<rparr>)"
    using run_docs [OF assms(1), of rs] assms(2) by (simp add: Let_def)
  show ?thesis
    unfolding r by (simp add: assign_embeddings_last_wins)
qed

theorem run_returns_same_list_and_assigns_in_order_witness:
  "fst (run warmed_state (ListOf [DocRef 0, DocRef 1])) = Inr [(''documents'', ListOf [DocRef 0, DocRef 1])]
   \<and> embedding (heap (snd (run warmed_state (ListOf [DocRef 0, DocRef 1]))) 0) = Some [20]
   \<and> embedding (heap (snd (run warmed_state (ListOf [DocRef 0, DocRef 1]))) 1) = Some [6]"
proof -
  have b: "embedding_backend (self warmed_state) = Some length_backend"
    by (simp add: warmed_state_eq)
  have v: "length_backend (map (\<lambda>r. text_to_embed (self warmed_state) (heap warmed_state r)) [0, 1])
      (batch_size (self warmed_state)) (progress_bar (self warmed_state))
      (normalize_embeddings (self warmed_state)) = Inr [[20], [6]]"
    by (simp add: length_backend_def sample_texts)
  note t = run_returns_same_list_and_assigns_in_order [OF b v]
  have "embedding (heap (snd (run warmed_state (ListOf (map DocRef [0, 1])))) ([0, 1] ! 0)) = Some ([[20], [6]] ! 0)"
    using t by (auto simp: nth_Cons')
  moreover have "embedding (heap (snd (run warmed_state (ListOf (map DocRef [0, 1])))) ([0, 1] ! 1)) = Some ([[20], [6]] ! 1)"
    using t by (auto simp: nth_Cons')
  ultimately show ?thesis using t by simp
qed

text \<open>
  C5: before \<open>warm_up\<close> (the attribute \<open>embedding_backend\<close> is absent), \<open>run\<close> on a list
  that starts with a Document raises the RuntimeError of the missing backend and leaves
  the state as it was: no call of the backend and no embedding assigned.
\<close>

theorem run_before_warm_up_raises_and_does_nothing:
  "embedding_backend (self s) = None \<Longrightarrow>
   run s (ListOf (DocRef r # ds)) = (Inl (RuntimeError not_loaded_message), s)"
  by (simp add: run_def)

theorem run_before_warm_up_raises_and_does_nothing_witness:
  "embedding_backend (self sample_state) = None
   \<and> run sample_state (ListOf [DocRef 0, DocRef 1]) = (Inl (RuntimeError not_loaded_message), sample_state)"
proof -
  have b: "embedding_backend (self sample_state) = None"
    by (simp add: sample_state_def sample_embedder_def init_def)
  show ?thesis
    using b run_before_warm_up_raises_and_does_nothing [OF b, of 0 "[DocRef 1]"] by simp
qed

text \<open>
  C6: \<open>warm_up\<close> does nothing when the backend is already there (the state, with the
  component and the record of factory calls, is unchanged); otherwise it calls the factory
  once with the stored model, device and credential and keeps the backend on the
  instance. After a successful \<open>warm_up\<close> a further \<open>warm_up\<close> does nothing.
\<close>

theorem warm_up_loads_once:
  "(embedding_backend (self s) \<noteq> None \<longrightarrow> warm_up get_embedding_backend s = (Inr (), s))
   \<and> (embedding_backend (self s) = None
        \<and> get_embedding_backend (model (self s)) (device (self s)) (token (self s)) = Inr b
      \<longrightarrow> warm_up get_embedding_backend s =
            (Inr (), s\<lparr>self := (self s)\<lparr>embedding_backend := Some b\<rparr>,
                       factory_calls := factory_calls s @
                         [(model (self s), device (self s), token (self s))]\<rparr>))
   \<and> (fst (warm_up get_embedding_backend s) = Inr ()
      \<longrightarrow> warm_up other_factory (snd (warm_up get_embedding_backend s)) =
            (Inr (), snd (warm_up get_embedding_backend s)))"
  by (auto simp: warm_up_def Let_def split: sum.splits)

theorem warm_up_loads_once_witness:
  "embedding_backend (self sample_state) = None
   \<and> embedding_backend (self warmed_state) \<noteq> None
   \<and> factory_calls warmed_state =
       [(''sentence-transformers/all-mpnet-base-v2'', ''cpu'', Some (EnvVar [''HF_API_TOKEN''] False))]
   \<and> warm_up sample_factory warmed_state = (Inr (), warmed_state)"
proof -
  have a: "embedding_backend (self sample_state) = None"
    by (simp add: sample_state_def sample_embedder_def init_def)
  have b: "embedding_backend (self warmed_state) \<noteq> None"
    by (simp add: warmed_state_eq)
  have c: "sample_factory (model (self sample_state)) (device (self sample_state))
      (token (self sample_state)) = Inr length_backend"
    by (simp add: sample_factory_def)
  have "warm_up sample_factory sample_state =
      (Inr (), sample_state\<lparr>self := (self sample_state)\<lparr>embedding_backend := Some length_backend\<rparr>,
                 factory_calls := factory_calls sample_state @
                   [(model (self sample_state), device (self sample_state), token (self sample_state))]\<rparr>)"
    using a c warm_up_loads_once [of sample_state sample_factory length_backend] by blast
  then have d: "factory_calls warmed_state =
       [(''sentence-transformers/all-mpnet-base-v2'', ''cpu'', Some (EnvVar [''HF_API_TOKEN''] False))]"
    by (simp add: warmed_state_def sample_state_def sample_embedder_def init_def)
  have "warm_up sample_factory warmed_state = (Inr (), warmed_state)"
    using b warm_up_loads_once [of warmed_state sample_factory] by blast
  then show ?thesis using a b d by simp
qed

text \<open>
  C9: whatever \<open>run\<close> is given and however it ends, the component is unchanged, every
  Document on the heap keeps its content, its meta and all its remaining attributes (only
  \<open>embedding\<close> can differ), and a Document that is not an element of the list is not
  changed at all.
\<close>

theorem run_changes_only_embedding_of_listed_documents:
  "self (snd (run s documents)) = self s
   \<and> (\<forall>r. content (heap (snd (run s documents)) r) = content (heap s r)
          \<and> meta (heap (snd (run s documents)) r) = meta (heap s r)
          \<and> document.more (heap (snd (run s documents)) r) = document.more (heap s r))
   \<and> (\<forall>r. (\<forall>ds. documents = ListOf ds \<longrightarrow> DocRef r \<notin> set ds)
          \<longrightarrow> heap (snd (run s documents)) r = heap s r)"
proof -
  obtain calls ps where
    shape: "snd (run s documents) = s\<lparr>embed_calls := calls, heap := snd (assign_embeddings ps (heap s))\<rparr>"
    and sub: "fst ` set ps \<subseteq> (case documents of ListOf ds \<Rightarrow> set ds | _ \<Rightarrow> {})"
    using run_state_shape [of s documents] by blast
  have frame: "(snd (assign_embeddings ps (heap s)) r)\<lparr>embedding := None\<rparr> = (heap s r)\<lparr>embedding := None\<rparr>" for r
    by (rule assign_embeddings_frame)
  have fields: "content (snd (assign_embeddings ps (heap s)) r) = content (heap s r)
      \<and> meta (snd (assign_embeddings ps (heap s)) r) = meta (heap s r)
      \<and> document.more (snd (assign_embeddings ps (heap s)) r) = document.more (heap s r)" for r
  proof -
    let ?a = "(snd (assign_embeddings ps (heap s)) r)\<lparr>embedding := None\<rparr>"
    let ?b = "(heap s r)\<lparr>embedding := None\<rparr>"
    have "content ?a = content ?b" "meta ?a = meta ?b" "document.more ?a = document.more ?b"
      by (simp_all only: frame)
    then show ?thesis by simp
  qed
  have untouched: "heap (snd (run s documents)) r = heap s r"
    if "\<forall>ds. documents = ListOf ds \<longrightarrow> DocRef r \<notin> set ds" for r
  proof -
    have "DocRef r \<notin> (case documents of ListOf ds \<Rightarrow> set ds | _ \<Rightarrow> {})"
      using that by (cases documents) simp_all
    then have "DocRef r \<notin> fst ` set ps" using sub by blast
    then show ?thesis by (simp add: shape assign_embeddings_untouched)
  qed
  show ?thesis using fields untouched by (simp add: shape)
qed


theorem run_changes_only_embedding_of_listed_documents_witness:
  "self (snd (run warmed_state (ListOf [DocRef 0]))) = self warmed_state
   \<and> content (heap (snd (run warmed_state (ListOf [DocRef 0]))) 0) = Some ''hello''
   \<and> meta (heap (snd (run warmed_state (ListOf [DocRef 0]))) 0) ''year'' = Some (VInt 0)
   \<and> heap (snd (run warmed_state (ListOf [DocRef 0]))) 1 = heap warmed_state 1"
proof -
  note t = run_changes_only_embedding_of_listed_documents [of warmed_state "ListOf [DocRef 0]"]
  have a: "self (snd (run warmed_state (ListOf [DocRef 0]))) = self warmed_state"
    using t by blast
  have "content (heap (snd (run warmed_state (ListOf [DocRef 0]))) 0) = content (heap warmed_state 0)"
    "meta (heap (snd (run warmed_state (ListOf [DocRef 0]))) 0) = meta (heap warmed_state 0)"
    using t by blast+
  then have b: "content (heap (snd (run warmed_state (ListOf [DocRef 0]))) 0) = Some ''hello''"
    "meta (heap (snd (run warmed_state (ListOf [DocRef 0]))) 0) ''year'' = Some (VInt 0)"
    by (simp_all add: warmed_state_eq sample_state_def sample_heap_def)
  have "\<forall>ds. ListOf [DocRef 0] = ListOf ds \<longrightarrow> DocRef 1 \<notin> set ds" by simp
  then have c: "heap (snd (run warmed_state (ListOf [DocRef 0]))) 1 = heap warmed_state 1"
    using t by blast
  show ?thesis using a b c by simp
qed

text \<open>
  C10: the empty list passes the type check and then meets the backend check like any
  other list: before \<open>warm_up\<close> it raises the RuntimeError of the missing backend and
  changes nothing. Once the backend is loaded, \<open>run\<close> calls it once with the empty list of
  texts and, when that call returns, gives back \<open>{"documents": []}\<close>; the call is the only
  change of the state.
\<close>

theorem run_empty_list_checks_backend_and_calls_it:
  "(embedding_backend (self s) = None \<longrightarrow>
      run s (ListOf []) = (Inl (RuntimeError not_loaded_message), s))
   \<and> (embedding_backend (self s) = Some backend
        \<and> backend [] (batch_size (self s)) (progress_bar (self s)) (normalize_embeddings (self s)) = Inr vs
      \<longrightarrow> run s (ListOf []) =
            (Inr [(''documents'', ListOf [])],
             s\<lparr>embed_calls := embed_calls s @
                  [([], batch_size (self s), progress_bar (self s), normalize_embeddings (self s))]\<rparr>))"
  by (simp add: run_def Let_def)

theorem run_empty_list_checks_backend_and_calls_it_witness:
  "embedding_backend (self sample_state) = None
   \<and> run sample_state (ListOf []) = (Inl (RuntimeError not_loaded_message), sample_state)
   \<and> embedding_backend (self warmed_state) = Some length_backend
   \<and> run warmed_state (ListOf []) =
       (Inr [(''documents'', ListOf [])], warmed_state\<lparr>embed_calls := [([], 32, True, False)]\<rparr>)"
proof -
  have a: "embedding_backend (self sample_state) = None"
    by (simp add: sample_state_def sample_embedder_def init_def)
  have b: "embedding_backend (self warmed_state) = Some length_backend"
    by (simp add: warmed_state_eq)
  have v: "length_backend [] (batch_size (self warmed_state)) (progress_bar (self warmed_state))
      (normalize_embeddings (self warmed_state)) = Inr []"
    by (simp add: length_backend_def)
  have c: "run sample_state (ListOf []) = (Inl (RuntimeError not_loaded_message), sample_state)"
    using a run_empty_list_checks_backend_and_calls_it [of sample_state] by blast
  have "run warmed_state (ListOf []) =
      (Inr [(''documents'', ListOf [])],
       warmed_state\<lparr>embed_calls := embed_calls warmed_state @
          [([], batch_size (self warmed_state), progress_bar (self warmed_state),
            normalize_embeddings (self warmed_state))]\<rparr>)"
    using b v run_empty_list_checks_backend_and_calls_it [of warmed_state length_backend "[]"] by blast
  moreover have "embed_calls warmed_state = []" "batch_size (self warmed_state) = 32"
    "progress_bar (self warmed_state) = True" "normalize_embeddings (self warmed_state) = False"
    by (simp_all add: warmed_state_eq sample_state_def sample_embedder_def init_def)
  ultimately show ?thesis using a b c by simp
qed

section \<open>Properties of the prompt builder\<close>

lemma dict_set_key_set:
  "fst ` set (dict_set kvs k v) = insert k (fst ` set kvs)"
proof (induction kvs)
  case Nil
  then show ?case by simp
next
  case (Cons p kvs)
  obtain k' v' where p: "p = (k', v')" by (cases p)
  show ?case
    by (cases "k' = k") (simp_all add: p Cons.IH insert_commute)
qed

lemma dict_set_distinct:
  "distinct (map fst kvs) \<Longrightarrow> distinct (map fst (dict_set kvs k v))"
proof (induction kvs)
  case Nil
  then show ?case by simp
next
  case (Cons p kvs)
  have "fst ` set (dict_set kvs k v) = insert k (fst ` set kvs)"
    by (rule dict_set_key_set)
  then show ?case using Cons by (cases p) auto
qed

lemma dict_set_values:
  "(k', v') \<in> set (dict_set kvs k v) \<Longrightarrow> v' = v \<or> (k', v') \<in> set kvs"
  by (induction kvs) (auto split: if_splits)

lemma register_all_template:
  "template_string (foldl (\<lambda>pb var. set_input_type pb var ty d) pb vars) = template_string pb
   \<and> template (foldl (\<lambda>pb var. set_input_type pb var ty d) pb vars) = template pb"
  by (induction vars arbitrary: pb) (simp_all add: set_input_type_def)

lemma register_all_keys:
  "fst ` set (inputs (foldl (\<lambda>pb var. set_input_type pb var ty d) pb vars))
      = fst ` set (inputs pb) \<union> set vars"
proof (induction vars arbitrary: pb)
  case Nil
  then show ?case by simp
next
  case (Cons var vars)
  have "fst ` set (inputs (set_input_type pb var ty d)) = insert var (fst ` set (inputs pb))"
    by (simp add: set_input_type_def dict_set_key_set)
  then show ?case using Cons.IH [of "set_input_type pb var ty d"] by auto
qed

lemma register_all_distinct:
  "distinct (map fst (inputs pb)) \<Longrightarrow>
   distinct (map fst (inputs (foldl (\<lambda>pb var. set_input_type pb var ty d) pb vars)))"
proof (induction vars arbitrary: pb)
  case Nil
  then show ?case by simp
next
  case (Cons var vars)
  have "distinct (map fst (inputs (set_input_type pb var ty d)))"
    using Cons.prems by (simp add: set_input_type_def dict_set_distinct)
  then show ?case using Cons.IH [of "set_input_type pb var ty d"] by simp
qed

lemma register_all_values:
  "(name, socket) \<in> set (inputs (foldl (\<lambda>pb var. set_input_type pb var ty d) pb vars)) \<Longrightarrow>
   socket = \<lparr>socket_type = ty, fourth_argument = d\<rparr> \<or> (name, socket) \<in> set (inputs pb)"
proof (induction vars arbitrary: pb)
  case Nil
  then show ?case by simp
next
  case (Cons var vars)
  from Cons.IH [of "set_input_type pb var ty d"] Cons.prems
  have "socket = \<lparr>socket_type = ty, fourth_argument = d\<rparr>
      \<or> (name, socket) \<in> set (inputs (set_input_type pb var ty d))"
    by simp
  then show ?case
    by (auto simp: set_input_type_def dest: dict_set_values)
qed

text \<open>
  The inputs the constructor registers. For a template string that the engine compiles
  and parses, the constructor succeeds and the registered inputs are exactly the
  undeclared variables of the template: the set of input names equals the set of
  variables, in whatever order the loop visits them, no name is registered twice, so
  there are as many inputs as variables, and every input is registered by the call
  \<open>set_input_type(self, var, Any, "")\<close>, that is with the type \<open>Any\<close> and the fourth
  argument \<open>""\<close>. Whether an input registered with that fourth argument has to be
  supplied by the caller is decided inside \<open>set_input_type\<close> and is not part of this
  statement.
\<close>

theorem PromptBuilder_init_registers_one_input_per_variable:
  assumes "Template jinja2 t = Inr tpl" and "parse jinja2 t = Inr ast"
  shows "\<exists>pb. PromptBuilder_init jinja2 t = Inr pb
     \<and> set (map fst (inputs pb)) = set (find_undeclared_variables jinja2 ast)
     \<and> distinct (map fst (inputs pb))
     \<and> length (inputs pb) = card (set (find_undeclared_variables jinja2 ast))
     \<and> (\<forall>(name, socket) \<in> set (inputs pb). socket = \<lparr>socket_type = Any, fourth_argument = VStr []\<rparr>)"
proof -
  let ?start = "\<lparr>template_string = t, template = tpl, inputs = []\<rparr>"
  let ?pb = "foldl (\<lambda>pb var. set_input_type pb var Any (VStr [])) ?start
               (find_undeclared_variables jinja2 ast)"
  have init: "PromptBuilder_init jinja2 t = Inr ?pb"
    using assms by (simp add: PromptBuilder_init_def)
  have keys: "set (map fst (inputs ?pb)) = set (find_undeclared_variables jinja2 ast)"
    using register_all_keys [of Any "VStr []" ?start "find_undeclared_variables jinja2 ast"] by simp
  have dist: "distinct (map fst (inputs ?pb))"
    by (rule register_all_distinct) simp
  have "length (inputs ?pb) = length (map fst (inputs ?pb))" by simp
  also have "\<dots> = card (set (map fst (inputs ?pb)))"
    using dist by (simp only: distinct_card)
  finally have len: "length (inputs ?pb) = card (set (find_undeclared_variables jinja2 ast))"
    using keys by simp
  have vals: "\<forall>(name, socket) \<in> set (inputs ?pb). socket = \<lparr>socket_type = Any, fourth_argument = VStr []\<rparr>"
    using register_all_values [of _ _ Any "VStr []" ?start "find_undeclared_variables jinja2 ast"]
    by auto
  show ?thesis using init keys dist len vals by blast
qed

lemma sample_template_parsed:
  "sample_parse ''Say {{ greeting }} to {{name}}, {{ greeting }}!'' =
     Inr [Text ''Say '', Var ''greeting'', Text '' to '', Var ''name'', Text '', '', Var ''greeting'',
          Text ''!'']"
  by (simp add: sample_parse_def strip_def)

theorem PromptBuilder_init_registers_one_input_per_variable_witness:
  "PromptBuilder_init sample_jinja ''Say {{ greeting }} to {{name}}, {{ greeting }}!'' =
     Inr \<lparr>template_string = ''Say {{ greeting }} to {{name}}, {{ greeting }}!'',
          template = [Text ''Say '', Var ''greeting'', Text '' to '', Var ''name'', Text '', '',
                      Var ''greeting'', Text ''!''],
          inputs = [(''name'', \<lparr>socket_type = Any, fourth_argument = VStr []\<rparr>),
                    (''greeting'', \<lparr>socket_type = Any, fourth_argument = VStr []\<rparr>)]\<rparr>
   \<and> (\<exists>pb. PromptBuilder_init sample_jinja ''Say {{ greeting }} to {{name}}, {{ greeting }}!'' = Inr pb
        \<and> set (map fst (inputs pb)) = {''greeting'', ''name''} \<and> length (inputs pb) = 2)"
proof -
  let ?t = "''Say {{ greeting }} to {{name}}, {{ greeting }}!''"
  let ?ast = "[Text ''Say '', Var ''greeting'', Text '' to '', Var ''name'', Text '', '', Var ''greeting'',
          Text ''!'']"
  have a: "Template sample_jinja ?t = Inr ?ast" and b: "parse sample_jinja ?t = Inr ?ast"
    by (simp_all add: sample_jinja_def sample_template_parsed)
  have v: "find_undeclared_variables sample_jinja ?ast = [''name'', ''greeting'']"
    by (simp add: sample_jinja_def)
  have c: "card {''name'', ''greeting''} = 2" by simp
  have direct: "PromptBuilder_init sample_jinja ?t =
     Inr \<lparr>template_string = ?t, template = ?ast,
          inputs = [(''name'', \<lparr>socket_type = Any, fourth_argument = VStr []\<rparr>),
                    (''greeting'', \<lparr>socket_type = Any, fourth_argument = VStr []\<rparr>)]\<rparr>"
    by (simp add: PromptBuilder_init_def a b v set_input_type_def)
  from PromptBuilder_init_registers_one_input_per_variable [OF a b]
  obtain pb where "PromptBuilder_init sample_jinja ?t = Inr pb"
    and "set (map fst (inputs pb)) = set (find_undeclared_variables sample_jinja ?ast)"
    and "length (inputs pb) = card (set (find_undeclared_variables sample_jinja ?ast))"
    by blast
  then have "PromptBuilder_init sample_jinja ?t = Inr pb
      \<and> set (map fst (inputs pb)) = {''greeting'', ''name''} \<and> length (inputs pb) = 2"
    by (simp add: v c insert_commute)
  then have "\<exists>pb. PromptBuilder_init sample_jinja ?t = Inr pb
      \<and> set (map fst (inputs pb)) = {''greeting'', ''name''} \<and> length (inputs pb) = 2"
    by (rule exI)
  then show ?thesis using direct by (rule conjI [rotated])
qed


text \<open>
  C8: the configuration written by \<open>to_dict\<close> holds exactly the original template string,
  and building a prompt builder from that configuration succeeds and gives an instance
  with the same declared inputs that renders, for every mapping of keyword arguments, the
  same result as the original.
\<close>

theorem PromptBuilder_round_trip_same_inputs_and_prompts:
  assumes "PromptBuilder_init jinja2 t = Inr pb"
  shows "PromptBuilder_to_dict pb = [(''template'', VStr t)]
     \<and> (\<exists>pb'. PromptBuilder_from_dict jinja2 (PromptBuilder_to_dict pb) = Inr pb'
           \<and> inputs pb' = inputs pb
           \<and> (\<forall>kwargs. PromptBuilder_run jinja2 pb' kwargs = PromptBuilder_run jinja2 pb kwargs))"
proof -
  have "template_string pb = t"
    using assms
    by (auto simp: PromptBuilder_init_def register_all_template split: sum.splits)
  then have dict: "PromptBuilder_to_dict pb = [(''template'', VStr t)]"
    by (simp add: PromptBuilder_to_dict_def default_to_dict_def)
  have again: "PromptBuilder_from_dict jinja2 [(''template'', VStr t)] = Inr pb"
    using assms by (simp add: PromptBuilder_from_dict_def)
  show ?thesis
    unfolding dict using again by simp
qed

theorem PromptBuilder_round_trip_same_inputs_and_prompts_witness:
  "(\<exists>pb pb'. PromptBuilder_init sample_jinja ''Hi {{ name }}!'' = Inr pb
      \<and> PromptBuilder_to_dict pb = [(''template'', VStr ''Hi {{ name }}!'')]
      \<and> PromptBuilder_from_dict sample_jinja (PromptBuilder_to_dict pb) = Inr pb'
      \<and> inputs pb' = inputs pb
      \<and> PromptBuilder_run sample_jinja pb' [''name'' \<mapsto> VStr ''Ada''] = Inr [(''prompt'', ''Hi Ada!'')]
      \<and> PromptBuilder_run sample_jinja pb [''name'' \<mapsto> VStr ''Ada''] = Inr [(''prompt'', ''Hi Ada!'')])"
proof -
  let ?t = "''Hi {{ name }}!''"
  let ?pb = "\<lparr>template_string = ?t, template = [Text ''Hi '', Var ''name'', Text ''!''],
              inputs = [(''name'', \<lparr>socket_type = Any, fourth_argument = VStr []\<rparr>)]\<rparr>"
  have p: "sample_parse ?t = Inr [Text ''Hi '', Var ''name'', Text ''!'']"
    by (simp add: sample_parse_def strip_def)
  have i: "PromptBuilder_init sample_jinja ?t = Inr ?pb"
    by (simp add: PromptBuilder_init_def sample_jinja_def p set_input_type_def)
  have r: "PromptBuilder_run sample_jinja ?pb [''name'' \<mapsto> VStr ''Ada''] = Inr [(''prompt'', ''Hi Ada!'')]"
    by (simp add: PromptBuilder_run_def sample_jinja_def)
  from PromptBuilder_round_trip_same_inputs_and_prompts [OF i]
  obtain pb' where d: "PromptBuilder_to_dict ?pb = [(''template'', VStr ?t)]"
    and f: "PromptBuilder_from_dict sample_jinja (PromptBuilder_to_dict ?pb) = Inr pb'"
    and n: "inputs pb' = inputs ?pb"
    and same: "\<forall>kwargs. PromptBuilder_run sample_jinja pb' kwargs = PromptBuilder_run sample_jinja ?pb kwargs"
    by blast
  have r': "PromptBuilder_run sample_jinja pb' [''name'' \<mapsto> VStr ''Ada''] = Inr [(''prompt'', ''Hi Ada!'')]"
    using same r by simp
  show ?thesis
    using i d f n r r' by blast
qed

end
